theory Spec2Isabelle
  imports Main
begin

section \<open>Domain model\<close>

text \<open>
  Go's \<open>error\<close> is one open interface type. The five sentinels of
  \<^verbatim>\<open>internal/domain/model/error.go\<close> are values of it, and so are the sentinels of the
  two persistence libraries and every other error value. The code compares errors with
  \<^verbatim>\<open>==\<close> and \<^verbatim>\<open>switch\<close> (identity of the sentinel) and, in the ORM repository, with
  \<^verbatim>\<open>errors.Is\<close> (identity along the chain of wrapped errors). A nil error is \<open>None\<close>.
\<close>

datatype error =
    ErrInternalServerError
  | ErrNotFound
  | ErrConflict
  | ErrBadRequest
  | ErrInvalidCredentials
  | sql_ErrNoRows
  | gorm_ErrRecordNotFound
  | errors_New string
  | Wrapped string error

text \<open>\<^verbatim>\<open>err.Error()\<close>: the message of an error value.\<close>

fun error_Error :: "error \<Rightarrow> string" where
  "error_Error ErrInternalServerError = ''internal server error''"
| "error_Error ErrNotFound = ''your requested item is not found''"
| "error_Error ErrConflict = ''your item already exists''"
| "error_Error ErrBadRequest = ''bad request''"
| "error_Error ErrInvalidCredentials = ''invalid credentials''"
| "error_Error sql_ErrNoRows = ''sql: no rows in result set''"
| "error_Error gorm_ErrRecordNotFound = ''record not found''"
| "error_Error (errors_New m) = m"
| "error_Error (Wrapped m e) = m"

text \<open>\<^verbatim>\<open>errors.Is(err, target)\<close> for a sentinel target.\<close>

fun errors_Is :: "error \<Rightarrow> error \<Rightarrow> bool" where
  "errors_Is (Wrapped m e) t = (if Wrapped m e = t then True else errors_Is e t)"
| "errors_Is e t = (e = t)"

text \<open>
  \<^verbatim>\<open>time.Time\<close> is an instant; only its zero value, assignment and equality are used.
  The instant is counted from the zero \<^verbatim>\<open>Time\<close>.
\<close>

type_synonym Time = int

text \<open>
  The \<^verbatim>\<open>User\<close> struct. \<^verbatim>\<open>ID\<close> is \<^verbatim>\<open>int64\<close> in the raw-SQL variant and \<^verbatim>\<open>uint\<close> in the
  ORM variant; the code only assigns and compares it, so it is read as its integer
  value.
\<close>

record User =
  ID :: int
  Name :: string
  Email :: string
  Password :: string
  CreatedAt :: Time
  UpdatedAt :: Time

text \<open>The zero value \<^verbatim>\<open>model.User{}\<close>.\<close>

definition User_zero :: User where
  "User_zero = \<lparr>ID = 0, Name = [], Email = [], Password = [], CreatedAt = 0, UpdatedAt = 0\<rparr>"

subsection \<open>JSON serialization of a User\<close>

text \<open>
  \<^verbatim>\<open>encoding/json\<close> walks the struct's fields in declaration order and reads each field's
  \<^verbatim>\<open>json\<close> tag: a name, or \<^verbatim>\<open>-\<close> for a field that is left out.
\<close>

datatype json =
    JNull
  | JNumber int
  | JString string
  | JTime Time
  | JArray "json list"
  | JObject "(string \<times> json) list"

datatype json_tag = json_name string | json_omit

datatype User_field = F_ID | F_Name | F_Email | F_Password | F_CreatedAt | F_UpdatedAt

definition User_fields :: "User_field list" where
  "User_fields = [F_ID, F_Name, F_Email, F_Password, F_CreatedAt, F_UpdatedAt]"

fun User_json_tag :: "User_field \<Rightarrow> json_tag" where
  "User_json_tag F_ID = json_name ''id''"
| "User_json_tag F_Name = json_name ''name''"
| "User_json_tag F_Email = json_name ''email''"
| "User_json_tag F_Password = json_omit"
| "User_json_tag F_CreatedAt = json_name ''created_at''"
| "User_json_tag F_UpdatedAt = json_name ''updated_at''"

fun User_field_json :: "User \<Rightarrow> User_field \<Rightarrow> json" where
  "User_field_json u F_ID = JNumber (ID u)"
| "User_field_json u F_Name = JString (Name u)"
| "User_field_json u F_Email = JString (Email u)"
| "User_field_json u F_Password = JString (Password u)"
| "User_field_json u F_CreatedAt = JTime (CreatedAt u)"
| "User_field_json u F_UpdatedAt = JTime (UpdatedAt u)"

fun json_member :: "User \<Rightarrow> User_field \<Rightarrow> (string \<times> json) list" where
  "json_member u f =
     (case User_json_tag f of
        json_omit \<Rightarrow> []
      | json_name n \<Rightarrow> [(n, User_field_json u f)])"

definition json_Marshal_User :: "User \<Rightarrow> json" where
  "json_Marshal_User u = JObject (concat (map (json_member u) User_fields))"

section \<open>HTTP status of an error\<close>

text \<open>\<^verbatim>\<open>getStatusCode\<close> of the handler.\<close>

definition getStatusCode :: "error option \<Rightarrow> int" where
  "getStatusCode err =
     (case err of
        None \<Rightarrow> 200
      | Some e \<Rightarrow>
          (if e = ErrInternalServerError then 500
           else if e = ErrNotFound then 404
           else if e = ErrConflict then 409
           else if e = ErrInvalidCredentials then 401
           else 500))"

section \<open>Calls between the layers\<close>

text \<open>
  A method either returns or panics. The raw-SQL repository panics in four of its six
  methods, so a panic is an outcome of every repository call, and the layers above pass
  it on (Go unwinds the callers).
\<close>

datatype 'a outcome = Return 'a | Panic string

text \<open>
  The \<^verbatim>\<open>UserRepository\<close> interface. \<open>'s\<close> is the state of whatever stands behind the
  repository; each method takes it and hands it back. A \<^verbatim>\<open>*model.User\<close> result may be nil
  (\<open>None\<close>) whatever the error is. \<^verbatim>\<open>Create\<close> and \<^verbatim>\<open>Update\<close> receive a pointer to the
  caller's user and may write through it, so they return the user as they leave it. The
  \<^verbatim>\<open>context.Context\<close> argument is only forwarded and is left out.
\<close>

record 's UserRepository =
  GetByID :: "int \<Rightarrow> 's \<Rightarrow> (User option \<times> error option) outcome \<times> 's"
  GetByEmail :: "string \<Rightarrow> 's \<Rightarrow> (User option \<times> error option) outcome \<times> 's"
  Create :: "User \<Rightarrow> 's \<Rightarrow> (User \<times> error option) outcome \<times> 's"
  Update :: "User \<Rightarrow> 's \<Rightarrow> (User \<times> error option) outcome \<times> 's"
  Delete :: "int \<Rightarrow> 's \<Rightarrow> error option outcome \<times> 's"
  List :: "int \<Rightarrow> int \<Rightarrow> 's \<Rightarrow> (User list \<times> error option) outcome \<times> 's"

section \<open>Use case of \<^verbatim>\<open>internal/usecase/user_usecase.go\<close>\<close>

definition userUsecase_GetByID ::
  "'s UserRepository \<Rightarrow> int \<Rightarrow> 's \<Rightarrow> (User option \<times> error option) outcome \<times> 's" where
  "userUsecase_GetByID userRepo id' s = GetByID userRepo id' s"

definition userUsecase_Create ::
  "'s UserRepository \<Rightarrow> User \<Rightarrow> 's \<Rightarrow> (User \<times> error option) outcome \<times> 's" where
  "userUsecase_Create userRepo user s = Create userRepo user s"

definition userUsecase_Update ::
  "'s UserRepository \<Rightarrow> User \<Rightarrow> 's \<Rightarrow> (User \<times> error option) outcome \<times> 's" where
  "userUsecase_Update userRepo user s = Update userRepo user s"

definition userUsecase_Delete ::
  "'s UserRepository \<Rightarrow> int \<Rightarrow> 's \<Rightarrow> error option outcome \<times> 's" where
  "userUsecase_Delete userRepo id' s = Delete userRepo id' s"

definition userUsecase_List ::
  "'s UserRepository \<Rightarrow> int \<Rightarrow> int \<Rightarrow> 's \<Rightarrow> (User list \<times> error option) outcome \<times> 's" where
  "userUsecase_List userRepo limit offset s = List userRepo limit offset s"

section \<open>Use case of the readme (\<^verbatim>\<open>readme.md\<close>, lines 280 to 331)\<close>

text \<open>
  \<^verbatim>\<open>time.Now()\<close> reads the clock; the reading is the argument \<open>now\<close>. \<^verbatim>\<open>limit\<close> and
  \<^verbatim>\<open>offset\<close> are Go \<^verbatim>\<open>int\<close>s that are only compared with zero and replaced by a constant,
  so no arithmetic can overflow.
\<close>

definition readme_userUsecase_GetByID ::
  "'s UserRepository \<Rightarrow> int \<Rightarrow> 's \<Rightarrow> (User option \<times> error option) outcome \<times> 's" where
  "readme_userUsecase_GetByID userRepo id' s = GetByID userRepo id' s"

definition readme_userUsecase_Create ::
  "'s UserRepository \<Rightarrow> Time \<Rightarrow> User \<Rightarrow> 's \<Rightarrow> (User \<times> error option) outcome \<times> 's" where
  "readme_userUsecase_Create userRepo now user s =
     (case GetByEmail userRepo (Email user) s of
        (Panic p, s1) \<Rightarrow> (Panic p, s1)
      | (Return (existingUser, err), s1) \<Rightarrow>
          if err = None \<and> existingUser \<noteq> None then (Return (user, Some ErrConflict), s1)
          else if err \<noteq> None \<and> err \<noteq> Some ErrNotFound then (Return (user, err), s1)
          else Create userRepo (user\<lparr>CreatedAt := now, UpdatedAt := now\<rparr>) s1)"

definition readme_userUsecase_Update ::
  "'s UserRepository \<Rightarrow> Time \<Rightarrow> User \<Rightarrow> 's \<Rightarrow> (User \<times> error option) outcome \<times> 's" where
  "readme_userUsecase_Update userRepo now user s =
     (case GetByID userRepo (ID user) s of
        (Panic p, s1) \<Rightarrow> (Panic p, s1)
      | (Return (found, err), s1) \<Rightarrow>
          if err \<noteq> None then (Return (user, err), s1)
          else Update userRepo (user\<lparr>UpdatedAt := now\<rparr>) s1)"

definition readme_userUsecase_Delete ::
  "'s UserRepository \<Rightarrow> int \<Rightarrow> 's \<Rightarrow> error option outcome \<times> 's" where
  "readme_userUsecase_Delete userRepo id' s = Delete userRepo id' s"

definition readme_userUsecase_List ::
  "'s UserRepository \<Rightarrow> int \<Rightarrow> int \<Rightarrow> 's \<Rightarrow> (User list \<times> error option) outcome \<times> 's" where
  "readme_userUsecase_List userRepo limit offset s =
     (let limit = (if limit \<le> 0 then 10 else limit);
          offset = (if offset < 0 then 0 else offset)
      in List userRepo limit offset s)"

section \<open>Observing the calls a repository receives\<close>

text \<open>
  To say which repository methods a use case calls, and with which arguments, a
  repository is wrapped so that every call is appended to a log kept beside its state.
  The wrapper changes no result.
\<close>

datatype call =
    Call_GetByID int
  | Call_GetByEmail string
  | Call_Create User
  | Call_Update User
  | Call_Delete int
  | Call_List int int

definition logged :: "call \<Rightarrow> ('s \<Rightarrow> 'a \<times> 's) \<Rightarrow> 's \<times> call list \<Rightarrow> 'a \<times> 's \<times> call list" where
  "logged c f sl = (case f (fst sl) of (x, s') \<Rightarrow> (x, s', snd sl @ [c]))"

text \<open>The log after a call.\<close>

abbreviation calls :: "'a \<times> 's \<times> call list \<Rightarrow> call list" where
  "calls x \<equiv> snd (snd x)"

definition recording :: "'s UserRepository \<Rightarrow> ('s \<times> call list) UserRepository" where
  "recording r =
     \<lparr>GetByID = (\<lambda>id'. logged (Call_GetByID id') (GetByID r id')),
      GetByEmail = (\<lambda>email. logged (Call_GetByEmail email) (GetByEmail r email)),
      Create = (\<lambda>user. logged (Call_Create user) (Create r user)),
      Update = (\<lambda>user. logged (Call_Update user) (Update r user)),
      Delete = (\<lambda>id'. logged (Call_Delete id') (Delete r id')),
      List = (\<lambda>limit offset. logged (Call_List limit offset) (List r limit offset))\<rparr>"

section \<open>Raw-SQL repository (\<^verbatim>\<open>internal/repository/sqlite_user_repository.go\<close>)\<close>

subsection \<open>What the repository uses of \<^verbatim>\<open>database/sql\<close>\<close>

text \<open>
  The \<^verbatim>\<open>users\<close> table has the columns id, name, email, password, created_at and
  updated_at. A row holds, in each column, a value of the column's type or NULL.
\<close>

record users_row =
  col_id :: "int option"
  col_name :: "string option"
  col_email :: "string option"
  col_password :: "string option"
  col_created_at :: "Time option"
  col_updated_at :: "Time option"

text \<open>
  The database behind \<^verbatim>\<open>*sql.DB\<close>: the rows of \<^verbatim>\<open>users\<close>, and the error, if any, with
  which the connection answers a query (a closed handle, a cancelled context, a missing
  table).
\<close>

record sql_DB =
  db_err :: "error option"
  users_table :: "users_row list"

text \<open>The values a driver hands over for the columns of a row.\<close>

datatype driver_Value = V_int int | V_text string | V_time Time | V_null

definition int_Value :: "int option \<Rightarrow> driver_Value" where
  "int_Value c = (case c of None \<Rightarrow> V_null | Some i \<Rightarrow> V_int i)"

definition text_Value :: "string option \<Rightarrow> driver_Value" where
  "text_Value c = (case c of None \<Rightarrow> V_null | Some t \<Rightarrow> V_text t)"

definition time_Value :: "Time option \<Rightarrow> driver_Value" where
  "time_Value c = (case c of None \<Rightarrow> V_null | Some t \<Rightarrow> V_time t)"

text \<open>Both queries select the same six columns, in this order.\<close>

definition selected :: "users_row \<Rightarrow> driver_Value list" where
  "selected r =
     [int_Value (col_id r), text_Value (col_name r), text_Value (col_email r),
      text_Value (col_password r), time_Value (col_created_at r),
      time_Value (col_updated_at r)]"

text \<open>
  The \<^verbatim>\<open>WHERE\<close> clause of a query compares one column with the query's argument; NULL
  equals nothing.
\<close>

datatype where_column = where_id | where_email

fun where_value :: "where_column \<Rightarrow> users_row \<Rightarrow> driver_Value" where
  "where_value where_id r = int_Value (col_id r)"
| "where_value where_email r = text_Value (col_email r)"

text \<open>
  \<^verbatim>\<open>*sql.Row\<close>, the result of \<^verbatim>\<open>QueryRowContext\<close>: the query's error, or the rows that
  match.
\<close>

datatype Row = Row_err error | Row_rows "driver_Value list list"

definition QueryRowContext :: "sql_DB \<Rightarrow> where_column \<Rightarrow> driver_Value \<Rightarrow> Row" where
  "QueryRowContext db w arg =
     (case db_err db of
        Some e \<Rightarrow> Row_err e
      | None \<Rightarrow> Row_rows (map selected (filter (\<lambda>r. where_value w r = arg) (users_table db))))"

text \<open>
  \<^verbatim>\<open>convertAssign\<close> stores one column value through one destination pointer. The
  destinations are pointers to fields of the user, so a destination is named by its
  field. A value of the field's own type is stored. NULL is refused, as \<^verbatim>\<open>database/sql\<close>
  does for these destination types. For a value of another type \<^verbatim>\<open>database/sql\<close>
  converts by formatting or parsing where it can; the model refuses such a pair. With the
  columns typed as above, a scan that passes the count check of \<^verbatim>\<open>Rows.Scan\<close> with the six
  destinations in column order never meets one.
\<close>

definition scan_error :: error where
  "scan_error = errors_New ''sql: Scan error: unsupported conversion''"

fun convertAssign :: "User_field \<Rightarrow> driver_Value \<Rightarrow> User \<Rightarrow> error + User" where
  "convertAssign F_ID v u = (case v of V_int i \<Rightarrow> Inr (u\<lparr>ID := i\<rparr>) | _ \<Rightarrow> Inl scan_error)"
| "convertAssign F_Name v u = (case v of V_text t \<Rightarrow> Inr (u\<lparr>Name := t\<rparr>) | _ \<Rightarrow> Inl scan_error)"
| "convertAssign F_Email v u = (case v of V_text t \<Rightarrow> Inr (u\<lparr>Email := t\<rparr>) | _ \<Rightarrow> Inl scan_error)"
| "convertAssign F_Password v u =
     (case v of V_text t \<Rightarrow> Inr (u\<lparr>Password := t\<rparr>) | _ \<Rightarrow> Inl scan_error)"
| "convertAssign F_CreatedAt v u =
     (case v of V_time t \<Rightarrow> Inr (u\<lparr>CreatedAt := t\<rparr>) | _ \<Rightarrow> Inl scan_error)"
| "convertAssign F_UpdatedAt v u =
     (case v of V_time t \<Rightarrow> Inr (u\<lparr>UpdatedAt := t\<rparr>) | _ \<Rightarrow> Inl scan_error)"

text \<open>
  \<^verbatim>\<open>Rows.Scan\<close>: the number of destinations must be the number of columns; then the
  columns are stored in order, stopping at the first that fails. What was stored before
  stays stored.
\<close>

fun assign_columns :: "(driver_Value \<times> User_field) list \<Rightarrow> User \<Rightarrow> error option \<times> User" where
  "assign_columns [] u = (None, u)"
| "assign_columns ((v, d) # rest) u =
     (case convertAssign d v u of
        Inl e \<Rightarrow> (Some e, u)
      | Inr u' \<Rightarrow> assign_columns rest u')"

definition Rows_Scan :: "driver_Value list \<Rightarrow> User_field list \<Rightarrow> User \<Rightarrow> error option \<times> User" where
  "Rows_Scan lastcols dest u =
     (if length dest \<noteq> length lastcols
      then (Some (errors_New ''sql: wrong number of destination arguments in Scan''), u)
      else assign_columns (zip lastcols dest) u)"

text \<open>
  \<^verbatim>\<open>Row.Scan\<close>: the query's error if there is one, \<^verbatim>\<open>ErrNoRows\<close> if no row matched,
  else the scan of the first row.
\<close>

definition Row_Scan :: "Row \<Rightarrow> User_field list \<Rightarrow> User \<Rightarrow> error option \<times> User" where
  "Row_Scan row dest u =
     (case row of
        Row_err e \<Rightarrow> (Some e, u)
      | Row_rows [] \<Rightarrow> (Some sql_ErrNoRows, u)
      | Row_rows (lastcols # rest) \<Rightarrow> Rows_Scan lastcols dest u)"

subsection \<open>The repository\<close>

text \<open>\<^verbatim>\<open>log.Printf\<close> writes to the process log and is left out.\<close>

definition sqliteUserRepository_GetByID :: "sql_DB \<Rightarrow> int \<Rightarrow> User option \<times> error option" where
  "sqliteUserRepository_GetByID db id' =
     (let row = QueryRowContext db where_id (V_int id');
          (err, user) = Row_Scan row [F_ID, F_Name, F_Password, F_CreatedAt, F_UpdatedAt] User_zero
      in if err \<noteq> None
         then (if err = Some sql_ErrNoRows then (None, Some ErrNotFound)
               else (None, Some ErrInternalServerError))
         else (Some user, None))"

definition sqliteUserRepository_GetByEmail :: "sql_DB \<Rightarrow> string \<Rightarrow> User option \<times> error option" where
  "sqliteUserRepository_GetByEmail db email =
     (let row = QueryRowContext db where_email (V_text email);
          (err, user) =
             Row_Scan row [F_ID, F_Name, F_Email, F_Password, F_CreatedAt, F_UpdatedAt] User_zero
      in if err \<noteq> None
         then (if err = Some sql_ErrNoRows then (None, Some ErrNotFound)
               else (Some user, None))
         else (Some user, None))"

definition NewSQLiteUserRepository :: "sql_DB UserRepository" where
  "NewSQLiteUserRepository =
     \<lparr>GetByID = (\<lambda>id' db. (Return (sqliteUserRepository_GetByID db id'), db)),
      GetByEmail = (\<lambda>email db. (Return (sqliteUserRepository_GetByEmail db email), db)),
      Create = (\<lambda>user db. (Panic ''unimplemented'', db)),
      Update = (\<lambda>user db. (Panic ''unimplemented'', db)),
      Delete = (\<lambda>id' db. (Panic ''unimplemented'', db)),
      List = (\<lambda>limit offset db. (Panic ''unimplemented'', db))\<rparr>"

section \<open>ORM repository of the readme (\<^verbatim>\<open>readme.md\<close>, lines 159 to 242)\<close>

text \<open>
  The ORM is a library outside the repository. The six calls the repository makes on
  \<^verbatim>\<open>*gorm.DB\<close> are taken as they come: each answers with a result (its \<^verbatim>\<open>Error\<close> and
  \<^verbatim>\<open>RowsAffected\<close>) and with the value it filled in.
\<close>

record gorm_result =
  Error :: "error option"
  RowsAffected :: int

record 's gorm_DB =
  First :: "int \<Rightarrow> 's \<Rightarrow> (User \<times> gorm_result) \<times> 's"
  Where_email_First :: "string \<Rightarrow> 's \<Rightarrow> (User \<times> gorm_result) \<times> 's"
  gorm_Create :: "User \<Rightarrow> 's \<Rightarrow> (User \<times> gorm_result) \<times> 's"
  Save :: "User \<Rightarrow> 's \<Rightarrow> (User \<times> gorm_result) \<times> 's"
  gorm_Delete :: "int \<Rightarrow> 's \<Rightarrow> gorm_result \<times> 's"
  Limit_Offset_Find :: "int \<Rightarrow> int \<Rightarrow> 's \<Rightarrow> (User list \<times> gorm_result) \<times> 's"

definition gormUserRepository_GetByID ::
  "'s gorm_DB \<Rightarrow> int \<Rightarrow> 's \<Rightarrow> (User option \<times> error option) outcome \<times> 's" where
  "gormUserRepository_GetByID db id' s =
     (case First db id' s of
        ((user, result), s') \<Rightarrow>
          (case Error result of
             Some e \<Rightarrow>
               if errors_Is e gorm_ErrRecordNotFound then (Return (None, Some ErrNotFound), s')
               else (Return (None, Some ErrInternalServerError), s')
           | None \<Rightarrow> (Return (Some user, None), s')))"

definition gormUserRepository_GetByEmail ::
  "'s gorm_DB \<Rightarrow> string \<Rightarrow> 's \<Rightarrow> (User option \<times> error option) outcome \<times> 's" where
  "gormUserRepository_GetByEmail db email s =
     (case Where_email_First db email s of
        ((user, result), s') \<Rightarrow>
          (case Error result of
             Some e \<Rightarrow>
               if errors_Is e gorm_ErrRecordNotFound then (Return (None, Some ErrNotFound), s')
               else (Return (None, Some ErrInternalServerError), s')
           | None \<Rightarrow> (Return (Some user, None), s')))"

definition gormUserRepository_Create ::
  "'s gorm_DB \<Rightarrow> User \<Rightarrow> 's \<Rightarrow> (User \<times> error option) outcome \<times> 's" where
  "gormUserRepository_Create db user s =
     (case gorm_Create db user s of
        ((user', result), s') \<Rightarrow>
          if Error result \<noteq> None then (Return (user', Some ErrInternalServerError), s')
          else (Return (user', None), s'))"

definition gormUserRepository_Update ::
  "'s gorm_DB \<Rightarrow> User \<Rightarrow> 's \<Rightarrow> (User \<times> error option) outcome \<times> 's" where
  "gormUserRepository_Update db user s =
     (case Save db user s of
        ((user', result), s') \<Rightarrow>
          if Error result \<noteq> None then (Return (user', Some ErrInternalServerError), s')
          else if RowsAffected result = 0 then (Return (user', Some ErrNotFound), s')
          else (Return (user', None), s'))"

definition gormUserRepository_Delete ::
  "'s gorm_DB \<Rightarrow> int \<Rightarrow> 's \<Rightarrow> error option outcome \<times> 's" where
  "gormUserRepository_Delete db id' s =
     (case gorm_Delete db id' s of
        (result, s') \<Rightarrow>
          if Error result \<noteq> None then (Return (Some ErrInternalServerError), s')
          else if RowsAffected result = 0 then (Return (Some ErrNotFound), s')
          else (Return None, s'))"

definition gormUserRepository_List ::
  "'s gorm_DB \<Rightarrow> int \<Rightarrow> int \<Rightarrow> 's \<Rightarrow> (User list \<times> error option) outcome \<times> 's" where
  "gormUserRepository_List db limit offset s =
     (case Limit_Offset_Find db limit offset s of
        ((users, result), s') \<Rightarrow>
          if Error result \<noteq> None then (Return ([], Some ErrInternalServerError), s')
          else (Return (users, None), s'))"

definition NewGormUserRepository :: "'s gorm_DB \<Rightarrow> 's UserRepository" where
  "NewGormUserRepository db =
     \<lparr>GetByID = gormUserRepository_GetByID db,
      GetByEmail = gormUserRepository_GetByEmail db,
      Create = gormUserRepository_Create db,
      Update = gormUserRepository_Update db,
      Delete = gormUserRepository_Delete db,
      List = gormUserRepository_List db\<rparr>"

section \<open>HTTP handler of the readme (\<^verbatim>\<open>readme.md\<close>, lines 351 to 510)\<close>

text \<open>
  The \<^verbatim>\<open>UserUsecase\<close> interface the handler holds, and the two use cases as values of
  it. The readme's use case reads the clock; \<open>now\<close> is what the clock answers.
\<close>

record 's UserUsecase =
  uc_GetByID :: "int \<Rightarrow> 's \<Rightarrow> (User option \<times> error option) outcome \<times> 's"
  uc_Create :: "User \<Rightarrow> 's \<Rightarrow> (User \<times> error option) outcome \<times> 's"
  uc_Update :: "User \<Rightarrow> 's \<Rightarrow> (User \<times> error option) outcome \<times> 's"
  uc_Delete :: "int \<Rightarrow> 's \<Rightarrow> error option outcome \<times> 's"
  uc_List :: "int \<Rightarrow> int \<Rightarrow> 's \<Rightarrow> (User list \<times> error option) outcome \<times> 's"

definition NewUserUsecase :: "'s UserRepository \<Rightarrow> 's UserUsecase" where
  "NewUserUsecase userRepo =
     \<lparr>uc_GetByID = userUsecase_GetByID userRepo,
      uc_Create = userUsecase_Create userRepo,
      uc_Update = userUsecase_Update userRepo,
      uc_Delete = userUsecase_Delete userRepo,
      uc_List = userUsecase_List userRepo\<rparr>"

definition readme_NewUserUsecase :: "'s UserRepository \<Rightarrow> Time \<Rightarrow> 's UserUsecase" where
  "readme_NewUserUsecase userRepo now =
     \<lparr>uc_GetByID = readme_userUsecase_GetByID userRepo,
      uc_Create = readme_userUsecase_Create userRepo now,
      uc_Update = readme_userUsecase_Update userRepo now,
      uc_Delete = readme_userUsecase_Delete userRepo,
      uc_List = readme_userUsecase_List userRepo\<rparr>"

text \<open>The same log of calls, for a use case.\<close>

definition recording_usecase :: "'s UserUsecase \<Rightarrow> ('s \<times> call list) UserUsecase" where
  "recording_usecase h =
     \<lparr>uc_GetByID = (\<lambda>id'. logged (Call_GetByID id') (uc_GetByID h id')),
      uc_Create = (\<lambda>user. logged (Call_Create user) (uc_Create h user)),
      uc_Update = (\<lambda>user. logged (Call_Update user) (uc_Update h user)),
      uc_Delete = (\<lambda>id'. logged (Call_Delete id') (uc_Delete h id')),
      uc_List = (\<lambda>limit offset. logged (Call_List limit offset) (uc_List h limit offset))\<rparr>"

subsection \<open>\<^verbatim>\<open>strconv.ParseUint(s, 10, 32)\<close>\<close>

text \<open>
  Decimal digits only, at least one, and a value that fits 32 bits. The loop refuses a
  character that is no digit when it reaches it, and a value past \<open>2^32 - 1\<close> as soon as
  a digit takes it there. The handler only asks whether the error is nil, so the
  \<^verbatim>\<open>*NumError\<close> is kept to its cause.
\<close>

definition digit :: "char \<Rightarrow> nat option" where
  "digit c =
     (let n = (of_char c :: nat)
      in if 48 \<le> n \<and> n \<le> 57 then Some (n - 48) else None)"

fun ParseUint_loop :: "string \<Rightarrow> nat \<Rightarrow> error + nat" where
  "ParseUint_loop [] n = Inr n"
| "ParseUint_loop (c # cs) n =
     (case digit c of
        None \<Rightarrow> Inl (errors_New ''invalid syntax'')
      | Some d \<Rightarrow>
          if 10 * n + d > 4294967295 then Inl (errors_New ''value out of range'')
          else ParseUint_loop cs (10 * n + d))"

definition strconv_ParseUint :: "string \<Rightarrow> error + nat" where
  "strconv_ParseUint s =
     (if s = [] then Inl (errors_New ''invalid syntax'') else ParseUint_loop s 0)"

subsection \<open>Responses\<close>

record Response =
  status :: int
  body :: "json option"

text \<open>\<^verbatim>\<open>c.JSON(code, v)\<close> for the two shapes of \<open>v\<close> the handler sends.\<close>

definition JSON_message :: "int \<Rightarrow> string \<Rightarrow> Response" where
  "JSON_message code m = \<lparr>status = code, body = Some (JObject [(''message'', JString m)])\<rparr>"

definition JSON_data :: "int \<Rightarrow> json \<Rightarrow> Response" where
  "JSON_data code v = \<lparr>status = code, body = Some (JObject [(''data'', v)])\<rparr>"

subsection \<open>\<^verbatim>\<open>CreateUser\<close> and \<^verbatim>\<open>UpdateUser\<close>\<close>

text \<open>
  \<^verbatim>\<open>c.Bind(&user)\<close> belongs to the web framework: what it leaves in \<open>user\<close>, or the
  error it returns, is the argument \<open>bind\<close>. \<^verbatim>\<open>c.Param("id")\<close> is the argument
  \<open>idParam\<close>.
\<close>

definition UserHandler_CreateUser ::
  "'s UserUsecase \<Rightarrow> error + User \<Rightarrow> 's \<Rightarrow> Response outcome \<times> 's" where
  "UserHandler_CreateUser h bind s =
     (case bind of
        Inl err \<Rightarrow> (Return (JSON_message 400 (error_Error err)), s)
      | Inr user \<Rightarrow>
          if Name user = [] \<or> Email user = [] \<or> Password user = []
          then (Return (JSON_message 400 ''name, email and password are required''), s)
          else
            (case uc_Create h user s of
               (Panic p, s') \<Rightarrow> (Panic p, s')
             | (Return (user', err), s') \<Rightarrow>
                 (case err of
                    Some e \<Rightarrow> (Return (JSON_message (getStatusCode err) (error_Error e)), s')
                  | None \<Rightarrow> (Return (JSON_data 201 (json_Marshal_User user')), s'))))"

definition UserHandler_UpdateUser ::
  "'s UserUsecase \<Rightarrow> string \<Rightarrow> error + User \<Rightarrow> 's \<Rightarrow> Response outcome \<times> 's" where
  "UserHandler_UpdateUser h idParam bind s =
     (case strconv_ParseUint idParam of
        Inl err \<Rightarrow> (Return (JSON_message 400 ''invalid id parameter''), s)
      | Inr id' \<Rightarrow>
          (case bind of
             Inl err \<Rightarrow> (Return (JSON_message 400 (error_Error err)), s)
           | Inr user \<Rightarrow>
               (case uc_Update h (user\<lparr>ID := int id'\<rparr>) s of
                  (Panic p, s') \<Rightarrow> (Panic p, s')
                | (Return (user', err), s') \<Rightarrow>
                    (case err of
                       Some e \<Rightarrow> (Return (JSON_message (getStatusCode err) (error_Error e)), s')
                     | None \<Rightarrow> (Return (JSON_data 200 (json_Marshal_User user')), s')))))"

section \<open>A table in memory\<close>

text \<open>
  For running the definitions on concrete inputs: an ORM whose database is a list of
  users held in memory. It stands in for the library in the examples below and takes no
  part in the general statements. Its \<open>Save\<close> rewrites the rows that carry the user's ID
  and inserts nothing (the library's own \<open>Save\<close> may insert).
\<close>

definition found :: gorm_result where
  "found = \<lparr>Error = None, RowsAffected = 1\<rparr>"

definition record_not_found :: gorm_result where
  "record_not_found = \<lparr>Error = Some gorm_ErrRecordNotFound, RowsAffected = 0\<rparr>"

definition memory_First :: "(User \<Rightarrow> bool) \<Rightarrow> User list \<Rightarrow> (User \<times> gorm_result) \<times> User list" where
  "memory_First p t =
     (case find p t of
        Some u \<Rightarrow> ((u, found), t)
      | None \<Rightarrow> ((User_zero, record_not_found), t))"

definition memory_gorm :: "User list gorm_DB" where
  "memory_gorm =
     \<lparr>First = (\<lambda>id'. memory_First (\<lambda>u. ID u = id')),
      Where_email_First = (\<lambda>email. memory_First (\<lambda>u. Email u = email)),
      gorm_Create = (\<lambda>user t. ((user, found), t @ [user])),
      Save = (\<lambda>user t.
        ((user, \<lparr>Error = None, RowsAffected = int (length (filter (\<lambda>u. ID u = ID user) t))\<rparr>),
         map (\<lambda>u. if ID u = ID user then user else u) t)),
      gorm_Delete = (\<lambda>id' t.
        (\<lparr>Error = None, RowsAffected = int (length (filter (\<lambda>u. ID u = id') t))\<rparr>,
         filter (\<lambda>u. ID u \<noteq> id') t)),
      Limit_Offset_Find = (\<lambda>limit offset t.
        ((take (nat limit) (drop (nat offset) t), found), t))\<rparr>"

text \<open>An ORM whose database cannot be reached: every call answers with an error.\<close>

definition unreachable :: gorm_result where
  "unreachable = \<lparr>Error = Some (errors_New ''dial tcp: connection refused''), RowsAffected = 0\<rparr>"

definition unreachable_gorm :: "unit gorm_DB" where
  "unreachable_gorm =
     \<lparr>First = (\<lambda>id' t. ((User_zero, unreachable), t)),
      Where_email_First = (\<lambda>email t. ((User_zero, unreachable), t)),
      gorm_Create = (\<lambda>user t. ((user, unreachable), t)),
      Save = (\<lambda>user t. ((user, unreachable), t)),
      gorm_Delete = (\<lambda>id' t. (unreachable, t)),
      Limit_Offset_Find = (\<lambda>limit offset t. (([], unreachable), t))\<rparr>"

definition alice :: User where
  "alice = \<lparr>ID = 1, Name = ''alice'', Email = ''alice@example.com'', Password = ''secret'',
     CreatedAt = 100, UpdatedAt = 100\<rparr>"

definition bob :: User where
  "bob = \<lparr>ID = 0, Name = ''bob'', Email = ''bob@example.com'', Password = ''hunter2'',
     CreatedAt = 0, UpdatedAt = 0\<rparr>"

definition alice_row :: users_row where
  "alice_row = \<lparr>col_id = Some 1, col_name = Some ''alice'',
     col_email = Some ''alice@example.com'', col_password = Some ''secret'',
     col_created_at = Some 100, col_updated_at = Some 100\<rparr>"

section \<open>Facts about the log and the interface values\<close>

lemma logged_calls: "calls (logged c f (s, log)) = log @ [c]"
  by (simp add: logged_def split: prod.splits)

lemma logged_eq: "f s = (x, s') \<Longrightarrow> logged c f (s, log) = (x, s', log @ [c])"
  by (simp add: logged_def)

lemma recording_simps:
  "GetByID (recording r) id' = logged (Call_GetByID id') (GetByID r id')"
  "GetByEmail (recording r) email = logged (Call_GetByEmail email) (GetByEmail r email)"
  "Create (recording r) user = logged (Call_Create user) (Create r user)"
  "Update (recording r) user = logged (Call_Update user) (Update r user)"
  "Delete (recording r) id' = logged (Call_Delete id') (Delete r id')"
  "List (recording r) limit offset = logged (Call_List limit offset) (List r limit offset)"
  by (simp_all add: recording_def)

lemma recording_usecase_simps:
  "uc_GetByID (recording_usecase h) id' = logged (Call_GetByID id') (uc_GetByID h id')"
  "uc_Create (recording_usecase h) user = logged (Call_Create user) (uc_Create h user)"
  "uc_Update (recording_usecase h) user = logged (Call_Update user) (uc_Update h user)"
  "uc_Delete (recording_usecase h) id' = logged (Call_Delete id') (uc_Delete h id')"
  "uc_List (recording_usecase h) limit offset =
     logged (Call_List limit offset) (uc_List h limit offset)"
  by (simp_all add: recording_usecase_def)

lemma NewGormUserRepository_simps:
  "GetByID (NewGormUserRepository db) = gormUserRepository_GetByID db"
  "GetByEmail (NewGormUserRepository db) = gormUserRepository_GetByEmail db"
  "Create (NewGormUserRepository db) = gormUserRepository_Create db"
  "Update (NewGormUserRepository db) = gormUserRepository_Update db"
  "Delete (NewGormUserRepository db) = gormUserRepository_Delete db"
  "List (NewGormUserRepository db) = gormUserRepository_List db"
  by (simp_all add: NewGormUserRepository_def)

lemma readme_NewUserUsecase_simps:
  "uc_GetByID (readme_NewUserUsecase r now) = readme_userUsecase_GetByID r"
  "uc_Create (readme_NewUserUsecase r now) = readme_userUsecase_Create r now"
  "uc_Update (readme_NewUserUsecase r now) = readme_userUsecase_Update r now"
  "uc_Delete (readme_NewUserUsecase r now) = readme_userUsecase_Delete r"
  "uc_List (readme_NewUserUsecase r now) = readme_userUsecase_List r"
  by (simp_all add: readme_NewUserUsecase_def)

lemmas memory_gorm_defs =
  memory_gorm_def memory_First_def found_def record_not_found_def alice_def bob_def
  User_zero_def

lemmas gormUserRepository_defs =
  gormUserRepository_GetByID_def gormUserRepository_GetByEmail_def
  gormUserRepository_Create_def gormUserRepository_Update_def
  gormUserRepository_Delete_def gormUserRepository_List_def

section \<open>The status mapping\<close>

text \<open>
  C6. For every error value, the handler's status mapping returns 404 for NotFound, 409
  for Conflict, 401 for InvalidCredentials, and 500 for every other non-nil error, among
  them InternalServerError and BadRequest.
\<close>

theorem getStatusCode_mapping:
  "getStatusCode (Some e) =
     (if e = ErrNotFound then 404
      else if e = ErrConflict then 409
      else if e = ErrInvalidCredentials then 401
      else 500)
   \<and> getStatusCode (Some ErrInternalServerError) = 500
   \<and> getStatusCode (Some ErrBadRequest) = 500"
  by (simp add: getStatusCode_def)

theorem getStatusCode_mapping_witness:
  "getStatusCode (Some ErrNotFound) = 404
   \<and> getStatusCode (Some ErrConflict) = 409
   \<and> getStatusCode (Some ErrInvalidCredentials) = 401
   \<and> getStatusCode (Some (errors_New ''disk full'')) = 500"
  using getStatusCode_mapping [of ErrNotFound] getStatusCode_mapping [of ErrConflict]
    getStatusCode_mapping [of ErrInvalidCredentials]
    getStatusCode_mapping [of "errors_New ''disk full''"]
  by simp

section \<open>The password and the JSON of a user\<close>

text \<open>
  C9. The Password field never appears in the JSON serialization of a User: the object
  has the members id, name, email, created_at and updated_at and no other, and two users
  that differ only in their Password serialize to the same JSON.
\<close>

theorem Password_not_serialized:
  "json_Marshal_User u =
     JObject [(''id'', JNumber (ID u)), (''name'', JString (Name u)),
              (''email'', JString (Email u)), (''created_at'', JTime (CreatedAt u)),
              (''updated_at'', JTime (UpdatedAt u))]
   \<and> json_Marshal_User (u\<lparr>Password := p\<rparr>) = json_Marshal_User u"
  by (simp add: json_Marshal_User_def User_fields_def)

theorem Password_not_serialized_witness:
  "json_Marshal_User (alice\<lparr>Password := ''another''\<rparr>) = json_Marshal_User alice"
  using Password_not_serialized [of alice "''another''"] by simp

section \<open>The use case of \<^verbatim>\<open>internal/usecase/user_usecase.go\<close> is a passthrough\<close>

text \<open>
  C8. The simpler use case is a pure passthrough: each of GetByID, Create, Update, Delete
  and List is the repository's method of the same name, on the same arguments, with the
  same result, errors and panics included.
\<close>

theorem userUsecase_passthrough:
  "userUsecase_GetByID userRepo = GetByID userRepo
   \<and> userUsecase_Create userRepo = Create userRepo
   \<and> userUsecase_Update userRepo = Update userRepo
   \<and> userUsecase_Delete userRepo = Delete userRepo
   \<and> userUsecase_List userRepo = List userRepo"
  by (intro conjI ext)
    (simp_all add: userUsecase_GetByID_def userUsecase_Create_def userUsecase_Update_def
      userUsecase_Delete_def userUsecase_List_def)

theorem userUsecase_passthrough_witness:
  "userUsecase_GetByID NewSQLiteUserRepository = GetByID NewSQLiteUserRepository
   \<and> userUsecase_Create NewSQLiteUserRepository = Create NewSQLiteUserRepository
   \<and> userUsecase_Update NewSQLiteUserRepository = Update NewSQLiteUserRepository
   \<and> userUsecase_Delete NewSQLiteUserRepository = Delete NewSQLiteUserRepository
   \<and> userUsecase_List NewSQLiteUserRepository = List NewSQLiteUserRepository"
  using userUsecase_passthrough [of NewSQLiteUserRepository] by simp

section \<open>Defaults of List\<close>

text \<open>
  C1, as the code has it. The readme's use case calls the repository's List with limit
  10 when the limit is zero or negative and with offset 0 when the offset is negative,
  and with the given values otherwise. The use case of
  \<^verbatim>\<open>internal/usecase/user_usecase.go\<close> sets no default: it calls the repository's List
  with the limit and the offset it was given, whatever they are.
\<close>

theorem List_defaults:
  "calls (readme_userUsecase_List (recording userRepo) limit offset (s, log)) =
     log @ [Call_List (if limit \<le> 0 then 10 else limit) (if offset < 0 then 0 else offset)]
   \<and> readme_userUsecase_List userRepo limit offset s =
     List userRepo (if limit \<le> 0 then 10 else limit) (if offset < 0 then 0 else offset) s
   \<and> calls (userUsecase_List (recording userRepo) limit offset (s, log)) =
     log @ [Call_List limit offset]"
  by (simp add: readme_userUsecase_List_def userUsecase_List_def recording_simps logged_calls)

theorem List_defaults_witness:
  "calls (readme_userUsecase_List (recording (NewGormUserRepository memory_gorm)) 0 (- 1)
            ([alice], [])) = [Call_List 10 0]
   \<and> calls (readme_userUsecase_List (recording (NewGormUserRepository memory_gorm)) 5 2
            ([alice], [])) = [Call_List 5 2]
   \<and> calls (userUsecase_List (recording (NewGormUserRepository memory_gorm)) 0 (- 1)
            ([alice], [])) = [Call_List 0 (- 1)]"
  using List_defaults [of "NewGormUserRepository memory_gorm" 0 "- 1" "[alice]" "[]"]
    List_defaults [of "NewGormUserRepository memory_gorm" 5 2 "[alice]" "[]"]
  by simp

text \<open>
  C1 as stated asks for the defaults in each variant. The use case of
  \<^verbatim>\<open>internal/usecase/user_usecase.go\<close>, over the raw-SQL repository, called with limit 0
  and offset -1, calls List with 0 and -1, not with 10 and 0.
\<close>

theorem userUsecase_List_counterexample:
  "calls (userUsecase_List (recording NewSQLiteUserRepository) 0 (- 1)
            (\<lparr>db_err = None, users_table = []\<rparr>, [])) = [Call_List 0 (- 1)]
   \<and> calls (userUsecase_List (recording NewSQLiteUserRepository) 0 (- 1)
            (\<lparr>db_err = None, users_table = []\<rparr>, [])) \<noteq> [Call_List 10 0]"
  by (simp add: userUsecase_List_def recording_simps logged_calls)

section \<open>Create in the readme's use case\<close>

text \<open>
  C4. When the lookup by email returns: if it found a user with no error, Create returns
  Conflict and the repository receives no Create call; if it failed with an error other
  than NotFound, Create returns that error, again with no Create call; otherwise Create
  sets CreatedAt and UpdatedAt to the clock's reading and calls the repository's Create
  with the stamped user, returning what it returns.
\<close>

theorem readme_Create_cases:
  assumes "GetByEmail userRepo (Email user) s = (Return (existingUser, err), s1)"
  shows "(err = None \<and> existingUser \<noteq> None \<longrightarrow>
            readme_userUsecase_Create userRepo now user s = (Return (user, Some ErrConflict), s1)
            \<and> calls (readme_userUsecase_Create (recording userRepo) now user (s, log)) =
                log @ [Call_GetByEmail (Email user)])
       \<and> (err \<noteq> None \<and> err \<noteq> Some ErrNotFound \<longrightarrow>
            readme_userUsecase_Create userRepo now user s = (Return (user, err), s1)
            \<and> calls (readme_userUsecase_Create (recording userRepo) now user (s, log)) =
                log @ [Call_GetByEmail (Email user)])
       \<and> (\<not> (err = None \<and> existingUser \<noteq> None) \<and> \<not> (err \<noteq> None \<and> err \<noteq> Some ErrNotFound) \<longrightarrow>
            readme_userUsecase_Create userRepo now user s =
              Create userRepo (user\<lparr>CreatedAt := now, UpdatedAt := now\<rparr>) s1
            \<and> calls (readme_userUsecase_Create (recording userRepo) now user (s, log)) =
                log @ [Call_GetByEmail (Email user),
                       Call_Create (user\<lparr>CreatedAt := now, UpdatedAt := now\<rparr>)])"
proof -
  have rec: "GetByEmail (recording userRepo) (Email user) (s, log) =
      (Return (existingUser, err), s1, log @ [Call_GetByEmail (Email user)])"
    using assms by (simp add: recording_simps logged_eq)
  show ?thesis
    unfolding readme_userUsecase_Create_def rec
    using assms by (auto simp: recording_simps logged_calls)
qed

theorem readme_Create_cases_witness:
  "readme_userUsecase_Create (NewGormUserRepository memory_gorm) 500
      (bob\<lparr>Email := ''alice@example.com''\<rparr>) [alice] =
     (Return (bob\<lparr>Email := ''alice@example.com''\<rparr>, Some ErrConflict), [alice])
   \<and> calls (readme_userUsecase_Create (recording (NewGormUserRepository memory_gorm)) 500
      (bob\<lparr>Email := ''alice@example.com''\<rparr>) ([alice], [])) =
     [Call_GetByEmail ''alice@example.com'']
   \<and> readme_userUsecase_Create (NewGormUserRepository unreachable_gorm) 500 bob () =
     (Return (bob, Some ErrInternalServerError), ())
   \<and> calls (readme_userUsecase_Create (recording (NewGormUserRepository unreachable_gorm)) 500
      bob ((), [])) = [Call_GetByEmail ''bob@example.com'']
   \<and> readme_userUsecase_Create (NewGormUserRepository memory_gorm) 500 bob [alice] =
     (Return (bob\<lparr>CreatedAt := 500, UpdatedAt := 500\<rparr>, None),
      [alice, bob\<lparr>CreatedAt := 500, UpdatedAt := 500\<rparr>])
   \<and> calls (readme_userUsecase_Create (recording (NewGormUserRepository memory_gorm)) 500
      bob ([alice], [])) =
     [Call_GetByEmail ''bob@example.com'',
      Call_Create (bob\<lparr>CreatedAt := 500, UpdatedAt := 500\<rparr>)]"
proof -
  have present: "GetByEmail (NewGormUserRepository memory_gorm)
      (Email (bob\<lparr>Email := ''alice@example.com''\<rparr>)) [alice] = (Return (Some alice, None), [alice])"
    by (simp add: NewGormUserRepository_simps gormUserRepository_defs memory_gorm_defs)
  have broken: "GetByEmail (NewGormUserRepository unreachable_gorm) (Email bob) () =
      (Return (None, Some ErrInternalServerError), ())"
    by (simp add: NewGormUserRepository_simps gormUserRepository_defs unreachable_gorm_def
        unreachable_def)
  have absent: "GetByEmail (NewGormUserRepository memory_gorm) (Email bob) [alice] =
      (Return (None, Some ErrNotFound), [alice])"
    by (simp add: NewGormUserRepository_simps gormUserRepository_defs memory_gorm_defs)
  have created: "Create (NewGormUserRepository memory_gorm)
      (bob\<lparr>CreatedAt := 500, UpdatedAt := 500\<rparr>) [alice] =
      (Return (bob\<lparr>CreatedAt := 500, UpdatedAt := 500\<rparr>, None),
       [alice, bob\<lparr>CreatedAt := 500, UpdatedAt := 500\<rparr>])"
    by (simp add: NewGormUserRepository_simps gormUserRepository_defs memory_gorm_def found_def)
  have email: "Email bob = ''bob@example.com''"
    by (simp add: bob_def)
  show ?thesis
    using readme_Create_cases [OF present, of 500 "[]"]
      readme_Create_cases [OF broken, of 500 "[]"]
      readme_Create_cases [OF absent, of 500 "[]"] created email
    by simp
qed

section \<open>An id that identifies no stored user\<close>

text \<open>
  C5. For an id that identifies no stored user, the readme's use case over the ORM
  repository returns NotFound from GetByID, from Update and from Delete. Towards the ORM,
  that the id identifies no stored user means: \<open>First\<close> reports that the record was not
  found, and \<open>Delete\<close> and \<open>Save\<close> report no error and zero rows affected. GetByID turns
  the report of \<open>First\<close> into NotFound; Update returns the NotFound of its existence check
  and makes no other repository call; Delete returns NotFound for the zero rows affected,
  and so does the repository's own Update.
\<close>

theorem missing_id_NotFound:
  "(First db id' s = ((u0, r0), s1) \<and> Error r0 = Some e \<and> errors_Is e gorm_ErrRecordNotFound \<longrightarrow>
      readme_userUsecase_GetByID (NewGormUserRepository db) id' s =
        (Return (None, Some ErrNotFound), s1)
      \<and> readme_userUsecase_Update (NewGormUserRepository db) now (user\<lparr>ID := id'\<rparr>) s =
        (Return (user\<lparr>ID := id'\<rparr>, Some ErrNotFound), s1)
      \<and> calls (readme_userUsecase_Update (recording (NewGormUserRepository db)) now
                 (user\<lparr>ID := id'\<rparr>) (s, log)) = log @ [Call_GetByID id'])
   \<and> (gorm_Delete db id' s = (r1, s2) \<and> Error r1 = None \<and> RowsAffected r1 = 0 \<longrightarrow>
      readme_userUsecase_Delete (NewGormUserRepository db) id' s =
        (Return (Some ErrNotFound), s2))
   \<and> (Save db user s = ((u3, r3), s3) \<and> Error r3 = None \<and> RowsAffected r3 = 0 \<longrightarrow>
      gormUserRepository_Update db user s = (Return (u3, Some ErrNotFound), s3))"
proof (intro conjI impI)
  assume first: "First db id' s = ((u0, r0), s1) \<and> Error r0 = Some e
    \<and> errors_Is e gorm_ErrRecordNotFound"
  then have get: "gormUserRepository_GetByID db id' s = (Return (None, Some ErrNotFound), s1)"
    by (simp add: gormUserRepository_GetByID_def)
  show "readme_userUsecase_GetByID (NewGormUserRepository db) id' s =
      (Return (None, Some ErrNotFound), s1)"
    using get by (simp add: readme_userUsecase_GetByID_def NewGormUserRepository_simps)
  show "readme_userUsecase_Update (NewGormUserRepository db) now (user\<lparr>ID := id'\<rparr>) s =
      (Return (user\<lparr>ID := id'\<rparr>, Some ErrNotFound), s1)"
    using get by (simp add: readme_userUsecase_Update_def NewGormUserRepository_simps)
  show "calls (readme_userUsecase_Update (recording (NewGormUserRepository db)) now
      (user\<lparr>ID := id'\<rparr>) (s, log)) = log @ [Call_GetByID id']"
    using get
    by (simp add: readme_userUsecase_Update_def NewGormUserRepository_simps recording_simps
        logged_eq)
next
  assume "gorm_Delete db id' s = (r1, s2) \<and> Error r1 = None \<and> RowsAffected r1 = 0"
  then show "readme_userUsecase_Delete (NewGormUserRepository db) id' s =
      (Return (Some ErrNotFound), s2)"
    by (simp add: readme_userUsecase_Delete_def NewGormUserRepository_simps
        gormUserRepository_Delete_def)
next
  assume "Save db user s = ((u3, r3), s3) \<and> Error r3 = None \<and> RowsAffected r3 = 0"
  then show "gormUserRepository_Update db user s = (Return (u3, Some ErrNotFound), s3)"
    by (simp add: gormUserRepository_Update_def)
qed

theorem missing_id_NotFound_witness:
  "readme_userUsecase_GetByID (NewGormUserRepository memory_gorm) 7 [alice] =
     (Return (None, Some ErrNotFound), [alice])
   \<and> readme_userUsecase_Update (NewGormUserRepository memory_gorm) 500 (bob\<lparr>ID := 7\<rparr>) [alice] =
     (Return (bob\<lparr>ID := 7\<rparr>, Some ErrNotFound), [alice])
   \<and> calls (readme_userUsecase_Update (recording (NewGormUserRepository memory_gorm)) 500
        (bob\<lparr>ID := 7\<rparr>) ([alice], [])) = [Call_GetByID 7]
   \<and> readme_userUsecase_Delete (NewGormUserRepository memory_gorm) 7 [alice] =
     (Return (Some ErrNotFound), [alice])
   \<and> gormUserRepository_Update memory_gorm (bob\<lparr>ID := 7\<rparr>) [alice] =
     (Return (bob\<lparr>ID := 7\<rparr>, Some ErrNotFound), [alice])"
proof -
  have first: "First memory_gorm 7 [alice] = ((User_zero, record_not_found), [alice])"
    by (simp add: memory_gorm_def memory_First_def alice_def)
  have r0: "Error record_not_found = Some gorm_ErrRecordNotFound"
    "errors_Is gorm_ErrRecordNotFound gorm_ErrRecordNotFound"
    by (simp_all add: record_not_found_def)
  have del: "gorm_Delete memory_gorm 7 [alice] = (\<lparr>Error = None, RowsAffected = 0\<rparr>, [alice])"
    by (simp add: memory_gorm_def alice_def)
  have save: "Save memory_gorm (bob\<lparr>ID := 7\<rparr>) [alice] =
      ((bob\<lparr>ID := 7\<rparr>, \<lparr>Error = None, RowsAffected = 0\<rparr>), [alice])"
    by (simp add: memory_gorm_def alice_def)
  show ?thesis
    using first r0 del save
      missing_id_NotFound [where db = memory_gorm and id' = 7 and s = "[alice]"
        and ?u0.0 = User_zero and ?r0.0 = record_not_found and ?s1.0 = "[alice]"
        and e = gorm_ErrRecordNotFound and now = 500 and user = "bob\<lparr>ID := 7\<rparr>"
        and log = "[]" and ?r1.0 = "\<lparr>Error = None, RowsAffected = 0\<rparr>"
        and ?s2.0 = "[alice]" and ?u3.0 = "bob\<lparr>ID := 7\<rparr>"
        and ?r3.0 = "\<lparr>Error = None, RowsAffected = 0\<rparr>" and ?s3.0 = "[alice]"]
    by simp
qed

section \<open>The handler\<close>

text \<open>
  C7. When the bound body of a POST has an empty Name, Email or Password, the handler
  answers 400 and calls no method of the use case, so no repository method either: the
  state behind them is as it was.
\<close>

theorem CreateUser_missing_field:
  assumes "Name user = [] \<or> Email user = [] \<or> Password user = []"
  shows "UserHandler_CreateUser h (Inr user) s =
           (Return (JSON_message 400 ''name, email and password are required''), s)
       \<and> calls (UserHandler_CreateUser (recording_usecase h) (Inr user) (s, log)) = log
       \<and> calls (UserHandler_CreateUser (readme_NewUserUsecase (recording userRepo) now)
                  (Inr user) (s, log)) = log"
  using assms by (auto simp: UserHandler_CreateUser_def)

theorem CreateUser_missing_field_witness:
  "UserHandler_CreateUser (readme_NewUserUsecase (NewGormUserRepository memory_gorm) 500)
      (Inr (bob\<lparr>Password := []\<rparr>)) [alice] =
     (Return (JSON_message 400 ''name, email and password are required''), [alice])
   \<and> calls (UserHandler_CreateUser
        (recording_usecase (readme_NewUserUsecase (NewGormUserRepository memory_gorm) 500))
        (Inr (bob\<lparr>Name := []\<rparr>)) ([alice], [])) = []
   \<and> calls (UserHandler_CreateUser
        (readme_NewUserUsecase (recording (NewGormUserRepository memory_gorm)) 500)
        (Inr (bob\<lparr>Email := []\<rparr>)) ([alice], [])) = []"
proof -
  have p: "Name (bob\<lparr>Password := []\<rparr>) = [] \<or> Email (bob\<lparr>Password := []\<rparr>) = []
      \<or> Password (bob\<lparr>Password := []\<rparr>) = []"
    by simp
  have n: "Name (bob\<lparr>Name := []\<rparr>) = [] \<or> Email (bob\<lparr>Name := []\<rparr>) = []
      \<or> Password (bob\<lparr>Name := []\<rparr>) = []"
    by simp
  have e: "Name (bob\<lparr>Email := []\<rparr>) = [] \<or> Email (bob\<lparr>Email := []\<rparr>) = []
      \<or> Password (bob\<lparr>Email := []\<rparr>) = []"
    by simp
  show ?thesis
    using CreateUser_missing_field [OF p,
        of "readme_NewUserUsecase (NewGormUserRepository memory_gorm) 500" "[alice]"]
      CreateUser_missing_field [OF n,
        of "readme_NewUserUsecase (NewGormUserRepository memory_gorm) 500" "[alice]" "[]"]
      CreateUser_missing_field [OF e, of _ "[alice]" "[]" "NewGormUserRepository memory_gorm" 500]
    by simp
qed

text \<open>
  C10. For a PUT whose path id parses and whose body binds, the use case receives exactly
  one call, Update, with the bound user whose ID is the parsed path id; the ID the body
  carried has no influence on what the handler does.
\<close>

theorem UpdateUser_path_id:
  assumes "strconv_ParseUint idParam = Inr n"
  shows "calls (UserHandler_UpdateUser (recording_usecase h) idParam (Inr user) (s, log)) =
           log @ [Call_Update (user\<lparr>ID := int n\<rparr>)]
       \<and> UserHandler_UpdateUser h idParam (Inr (user\<lparr>ID := j\<rparr>)) s =
           UserHandler_UpdateUser h idParam (Inr user) s"
proof -
  obtain x s' where u: "uc_Update h (user\<lparr>ID := int n\<rparr>) s = (x, s')"
    by (cases "uc_Update h (user\<lparr>ID := int n\<rparr>) s") auto
  have "uc_Update (recording_usecase h) (user\<lparr>ID := int n\<rparr>) (s, log) =
      (x, s', log @ [Call_Update (user\<lparr>ID := int n\<rparr>)])"
    using u by (simp add: recording_usecase_simps logged_eq)
  then have "calls (UserHandler_UpdateUser (recording_usecase h) idParam (Inr user) (s, log)) =
           log @ [Call_Update (user\<lparr>ID := int n\<rparr>)]"
    using assms
    by (simp add: UserHandler_UpdateUser_def split: outcome.splits option.splits prod.splits)
  moreover have "UserHandler_UpdateUser h idParam (Inr (user\<lparr>ID := j\<rparr>)) s =
           UserHandler_UpdateUser h idParam (Inr user) s"
    using assms by (simp add: UserHandler_UpdateUser_def)
  ultimately show ?thesis by simp
qed

theorem UpdateUser_path_id_witness:
  "strconv_ParseUint ''42'' = Inr 42
   \<and> calls (UserHandler_UpdateUser
        (recording_usecase (readme_NewUserUsecase (NewGormUserRepository memory_gorm) 500))
        ''42'' (Inr (bob\<lparr>ID := 1\<rparr>)) ([alice], [])) = [Call_Update (bob\<lparr>ID := 42\<rparr>)]
   \<and> UserHandler_UpdateUser (readme_NewUserUsecase (NewGormUserRepository memory_gorm) 500)
        ''42'' (Inr (bob\<lparr>ID := 1\<rparr>)) [alice] =
      UserHandler_UpdateUser (readme_NewUserUsecase (NewGormUserRepository memory_gorm) 500)
        ''42'' (Inr bob) [alice]"
proof -
  have parse: "strconv_ParseUint ''42'' = Inr 42"
    by (simp add: strconv_ParseUint_def digit_def)
  show ?thesis
    using parse
      UpdateUser_path_id [OF parse,
        of "readme_NewUserUsecase (NewGormUserRepository memory_gorm) 500" "bob\<lparr>ID := 1\<rparr>"
          "[alice]" "[]" 1]
      UpdateUser_path_id [OF parse,
        of "readme_NewUserUsecase (NewGormUserRepository memory_gorm) 500" bob "[alice]" "[]" 1]
    by simp
qed

section \<open>The raw-SQL repository\<close>

lemma selected_length: "length (selected r) = 6"
  by (simp add: selected_def)

lemma QueryRowContext_first_row:
  assumes "QueryRowContext db w arg = Row_rows (lastcols # rest)"
  shows "length lastcols = 6"
proof -
  from assms obtain z where "lastcols = selected z"
    by (auto simp: QueryRowContext_def split: option.splits)
  then show ?thesis by (simp add: selected_length)
qed

lemma Row_Scan_five_of_six:
  "fst (Row_Scan (QueryRowContext db w arg)
          [F_ID, F_Name, F_Password, F_CreatedAt, F_UpdatedAt] u) \<noteq> None"
proof (cases "QueryRowContext db w arg")
  case (Row_err e)
  then show ?thesis by (simp add: Row_Scan_def)
next
  case (Row_rows rows)
  show ?thesis
  proof (cases rows)
    case Nil
    with Row_rows show ?thesis by (simp add: Row_Scan_def)
  next
    case (Cons lastcols rest)
    with Row_rows have "length lastcols = 6"
      using QueryRowContext_first_row by blast
    with Row_rows Cons show ?thesis by (simp add: Row_Scan_def Rows_Scan_def)
  qed
qed

text \<open>
  What both methods do get right: when the query succeeds and no row matches, the result
  is NotFound; and GetByEmail returns the user of a matching row that holds no NULL.
\<close>

lemma no_rows_NotFound:
  assumes "db_err db = None"
  shows "filter (\<lambda>r. col_id r = Some id') (users_table db) = [] \<Longrightarrow>
           sqliteUserRepository_GetByID db id' = (None, Some ErrNotFound)"
    and "filter (\<lambda>r. col_email r = Some email) (users_table db) = [] \<Longrightarrow>
           sqliteUserRepository_GetByEmail db email = (None, Some ErrNotFound)"
proof -
  have id_match: "\<And>c. (int_Value c = V_int id') = (c = Some id')"
    by (simp add: int_Value_def split: option.splits)
  have email_match: "\<And>c. (text_Value c = V_text email) = (c = Some email)"
    by (simp add: text_Value_def split: option.splits)
  show "filter (\<lambda>r. col_id r = Some id') (users_table db) = [] \<Longrightarrow>
      sqliteUserRepository_GetByID db id' = (None, Some ErrNotFound)"
    using assms
    by (simp add: sqliteUserRepository_GetByID_def QueryRowContext_def Row_Scan_def id_match)
  show "filter (\<lambda>r. col_email r = Some email) (users_table db) = [] \<Longrightarrow>
      sqliteUserRepository_GetByEmail db email = (None, Some ErrNotFound)"
    using assms
    by (simp add: sqliteUserRepository_GetByEmail_def QueryRowContext_def Row_Scan_def
        email_match)
qed

lemma GetByEmail_stored_row:
  "sqliteUserRepository_GetByEmail \<lparr>db_err = None, users_table = [alice_row]\<rparr>
     ''alice@example.com'' = (Some alice, None)"
  by (simp add: sqliteUserRepository_GetByEmail_def QueryRowContext_def Row_Scan_def
      Rows_Scan_def selected_def alice_row_def alice_def User_zero_def
      int_Value_def text_Value_def time_Value_def)

text \<open>
  C3 says that GetByID, called with the id of a stored row, returns the user of that row.
  The code does not do it: \<^verbatim>\<open>Scan\<close> is given five destinations (\<^verbatim>\<open>&user.Email\<close> is missing)
  for the six selected columns, which \<^verbatim>\<open>database/sql\<close> refuses. So GetByID returns no user
  for any database and any id, and for the stored row of the example it returns
  InternalServerError.
\<close>

theorem GetByID_never_returns_a_user:
  "fst (sqliteUserRepository_GetByID db id') = None
   \<and> sqliteUserRepository_GetByID \<lparr>db_err = None, users_table = [alice_row]\<rparr> 1 =
       (None, Some ErrInternalServerError)"
proof -
  obtain err user where scan:
    "Row_Scan (QueryRowContext db where_id (V_int id'))
       [F_ID, F_Name, F_Password, F_CreatedAt, F_UpdatedAt] User_zero = (err, user)"
    by (cases "Row_Scan (QueryRowContext db where_id (V_int id'))
       [F_ID, F_Name, F_Password, F_CreatedAt, F_UpdatedAt] User_zero") auto
  then have "err \<noteq> None"
    using Row_Scan_five_of_six [of db where_id "V_int id'" User_zero] by simp
  then have "fst (sqliteUserRepository_GetByID db id') = None"
    using scan by (simp add: sqliteUserRepository_GetByID_def)
  moreover have "sqliteUserRepository_GetByID \<lparr>db_err = None, users_table = [alice_row]\<rparr> 1 =
       (None, Some ErrInternalServerError)"
    by (simp add: sqliteUserRepository_GetByID_def QueryRowContext_def Row_Scan_def
        Rows_Scan_def selected_def alice_row_def int_Value_def)
  ultimately show ?thesis by simp
qed

text \<open>
  C2 says that GetByEmail returns a non-nil error whenever the scan fails. The code does
  not do it: only \<^verbatim>\<open>ErrNoRows\<close> is turned into an error, and after any other scan error
  the function falls through to \<^verbatim>\<open>return user, nil\<close>. With a query that fails it returns
  the zero user and a nil error; with a row whose password is NULL it returns the
  half-filled user and a nil error.
\<close>

theorem GetByEmail_scan_error_nil_error:
  "sqliteUserRepository_GetByEmail
     \<lparr>db_err = Some (errors_New ''sql: database is closed''), users_table = [alice_row]\<rparr>
     ''alice@example.com'' = (Some User_zero, None)
   \<and> sqliteUserRepository_GetByEmail
     \<lparr>db_err = None, users_table = [alice_row\<lparr>col_password := None\<rparr>]\<rparr>
     ''alice@example.com'' =
       (Some \<lparr>ID = 1, Name = ''alice'', Email = ''alice@example.com'', Password = [],
              CreatedAt = 0, UpdatedAt = 0\<rparr>, None)"
  by (simp add: sqliteUserRepository_GetByEmail_def QueryRowContext_def Row_Scan_def
      Rows_Scan_def selected_def alice_row_def User_zero_def scan_error_def
      int_Value_def text_Value_def time_Value_def)

end
